theory Spec2Isabelle
  imports Complex_Main
begin

section \<open>The data of App.js\<close>

text \<open>
  A camera frame arrives as a tensor; its contents are never inspected by App.js, so a
  tensor is an opaque handle. The classifier answers with an array of objects
  \<^verbatim>\<open>{"className": ..., "probability": ...}\<close> (or with null). The source compares the
  probability, a JavaScript number, against the literal 0.3 with \<^verbatim>\<open>>\<close>; a comparison
  of two numbers rounds nothing, so the probability is modelled by its exact value.
\<close>

type_synonym tensor = nat

record classification =
  className :: string
  probability :: real

text \<open>
  The loaded MobileNet handle is used through one method only,
  \<^verbatim>\<open>classify(tensor, topk)\<close>, so the handle is that method: a black box from a tensor and
  a number to the ranked array, \<open>None\<close> standing for a null answer.
\<close>

type_synonym model = "tensor \<Rightarrow> nat \<Rightarrow> classification list option"

text \<open>The five \<^verbatim>\<open>useState\<close> variables of the component, lines 26 to 33.\<close>

record app_state =
  predictionFound :: bool
  hasPermission :: "bool option"
  prediction :: string
  mobilenetModel :: "model option"
  frameworkReady :: bool

definition initialState :: app_state where
  "initialState =
     \<lparr>predictionFound = False, hasPermission = None, prediction = [],
      mobilenetModel = None, frameworkReady = False\<rparr>"

text \<open>
  Every render runs the body of \<^verbatim>\<open>App\<close> again. The functions it creates close over the
  values the state variables have in that render and over that render's own variable
  \<^verbatim>\<open>let requestAnimationFrameId = 0\<close>. A closure therefore records the two state values
  that \<^verbatim>\<open>handleCameraStream\<close> and \<^verbatim>\<open>getPrediction\<close> read, and the address of the
  variable.
\<close>

record closure =
  c_predictionFound :: bool
  c_mobilenetModel :: "model option"
  c_var :: nat

datatype handler =
    OnPress_loadNewPrediction
  | OnReady_handleCameraStream closure

datatype element =
    View string "element list"
  | Text string string
  | ScrollView "element list"
  | Button string handler
  | ActivityIndicator
  | TensorCamera handler

datatype error = TypeError | Rejection

datatype 'a awaited = Resolved 'a | Rejected

text \<open>
  What the handlers act on: the state React holds for the component, the store of the
  \<^verbatim>\<open>requestAnimationFrameId\<close> variables (one per render, by address), the cleanup that
  the second \<^verbatim>\<open>useEffect\<close> has registered (its dependency value and the variable its
  closure reads), the animation-frame callbacks that are scheduled (identifier and the
  closure of the \<^verbatim>\<open>loop\<close> to run), the next identifier \<^verbatim>\<open>requestAnimationFrame\<close> hands
  out, the frames the camera iterator still has to deliver, and the record of the calls
  made to \<^verbatim>\<open>classify\<close> (tensor and topk).
\<close>

record world =
  state :: app_state
  vars :: "nat \<Rightarrow> nat"
  renders :: nat
  cleanupEffect :: "(nat \<times> nat) option"
  pending :: "(nat \<times> closure) list"
  nextId :: nat
  frames :: "tensor option list"
  calls :: "(tensor \<times> nat) list"

definition initialWorld :: "tensor option list \<Rightarrow> world" where
  "initialWorld fs =
     \<lparr>state = initialState, vars = (\<lambda>_. 0), renders = 0, cleanupEffect = None,
      pending = [], nextId = 1, frames = fs, calls = []\<rparr>"

section \<open>The platform: state setters and animation frames\<close>

definition setPredictionFound :: "bool \<Rightarrow> world \<Rightarrow> world" where
  "setPredictionFound b w = w\<lparr>state := (state w)\<lparr>predictionFound := b\<rparr>\<rparr>"

definition setHasPermission :: "bool \<Rightarrow> world \<Rightarrow> world" where
  "setHasPermission b w = w\<lparr>state := (state w)\<lparr>hasPermission := Some b\<rparr>\<rparr>"

definition setPrediction :: "string \<Rightarrow> world \<Rightarrow> world" where
  "setPrediction s w = w\<lparr>state := (state w)\<lparr>prediction := s\<rparr>\<rparr>"

definition setMobilenetModel :: "model \<Rightarrow> world \<Rightarrow> world" where
  "setMobilenetModel m w = w\<lparr>state := (state w)\<lparr>mobilenetModel := Some m\<rparr>\<rparr>"

definition setFrameworkReady :: "bool \<Rightarrow> world \<Rightarrow> world" where
  "setFrameworkReady b w = w\<lparr>state := (state w)\<lparr>frameworkReady := b\<rparr>\<rparr>"

text \<open>
  \<^verbatim>\<open>requestAnimationFrame(loop)\<close> schedules the callback once and returns a fresh non-zero
  identifier; \<^verbatim>\<open>cancelAnimationFrame(id)\<close> removes the callback with that identifier if
  it is still scheduled and does nothing otherwise.
\<close>

definition requestAnimationFrame :: "closure \<Rightarrow> world \<Rightarrow> nat \<times> world" where
  "requestAnimationFrame c w =
     (nextId w, w\<lparr>pending := pending w @ [(nextId w, c)], nextId := nextId w + 1\<rparr>)"

definition cancelAnimationFrame :: "nat \<Rightarrow> world \<Rightarrow> world" where
  "cancelAnimationFrame i w = w\<lparr>pending := filter (\<lambda>(j, c). j \<noteq> i) (pending w)\<rparr>"

text \<open>\<^verbatim>\<open>imageAsTensors.next().value\<close>: the next frame, undefined once the iterator is done.\<close>

definition nextFrame :: "world \<Rightarrow> tensor option \<times> world" where
  "nextFrame w =
     (case frames w of [] \<Rightarrow> (None, w) | f # fs \<Rightarrow> (f, w\<lparr>frames := fs\<rparr>))"

section \<open>The functions of App.js\<close>

text \<open>
  \<^verbatim>\<open>getPrediction\<close>, lines 117 to 136. A null model makes
  \<^verbatim>\<open>mobilenetModel.classify\<close> throw a TypeError, which rejects the promise of the async
  function; the result pairs the error, if any, with the world reached. The
  \<^verbatim>\<open>console.log\<close> calls are left out.
\<close>

definition getPrediction :: "closure \<Rightarrow> tensor option \<Rightarrow> world \<Rightarrow> error option \<times> world" where
  "getPrediction c tensor w =
     (case tensor of
        None \<Rightarrow> (None, w)
      | Some t \<Rightarrow>
          (case c_mobilenetModel c of
             None \<Rightarrow> (Some TypeError, w)
           | Some m \<Rightarrow>
               (let prediction = m t 1;
                    w1 = w\<lparr>calls := calls w @ [(t, 1)]\<rparr>
                in case prediction of
                     None \<Rightarrow> (None, w1)
                   | Some [] \<Rightarrow> (None, w1)
                   | Some (p # ps) \<Rightarrow>
                       if probability p > 0.3
                       then (None,
                             setPrediction (className p)
                               (setPredictionFound True
                                 (cancelAnimationFrame (vars w1 (c_var c)) w1)))
                       else (None, w1))))"

text \<open>
  The body of \<^verbatim>\<open>loop\<close> and \<^verbatim>\<open>handleCameraStream\<close>, lines 145 to 152. An iteration
  pulls a frame, awaits \<^verbatim>\<open>getPrediction\<close> and then requests its next run; when
  \<^verbatim>\<open>getPrediction\<close> throws, the request is not reached. \<^verbatim>\<open>handleCameraStream\<close> does
  not await the loop it starts: the error in its result is the rejection of the loop's
  promise.
\<close>

definition loop :: "closure \<Rightarrow> world \<Rightarrow> error option \<times> world" where
  "loop c w =
     (let (nextImageTensor, w1) = nextFrame w
      in case getPrediction c nextImageTensor w1 of
           (Some e, w2) \<Rightarrow> (Some e, w2)
         | (None, w2) \<Rightarrow>
             (let (i, w3) = requestAnimationFrame c w2
              in (None, w3\<lparr>vars := (vars w3)(c_var c := i)\<rparr>)))"

definition handleCameraStream :: "closure \<Rightarrow> world \<Rightarrow> error option \<times> world" where
  "handleCameraStream c w = (if \<not> c_predictionFound c then loop c w else (None, w))"

text \<open>\<^verbatim>\<open>loadNewPrediction\<close>, lines 158 to 161.\<close>

definition loadNewPrediction :: "world \<Rightarrow> world" where
  "loadNewPrediction w = setPredictionFound False (setPrediction [] w)"

text \<open>
  The first effect, lines 52 to 70. The three awaited promises are parameters: the
  permission answer, \<^verbatim>\<open>tf.ready()\<close> and \<^verbatim>\<open>mobilenet.load()\<close>. A rejected promise ends
  the async function where it stands.
\<close>

definition initEffect ::
  "string awaited \<Rightarrow> unit awaited \<Rightarrow> model awaited \<Rightarrow> world \<Rightarrow> error option \<times> world" where
  "initEffect permissions tfReady loaded w =
     (if \<not> frameworkReady (state w) then
        (case permissions of
           Rejected \<Rightarrow> (Some Rejection, w)
         | Resolved status \<Rightarrow>
             (let w1 = setHasPermission (status = ''granted'') w
              in case tfReady of
                   Rejected \<Rightarrow> (Some Rejection, w1)
                 | Resolved u \<Rightarrow>
                     (case loaded of
                        Rejected \<Rightarrow> (Some Rejection, w1)
                      | Resolved m \<Rightarrow>
                          (None, setFrameworkReady True (setMobilenetModel m w1)))))
      else (None, w))"

text \<open>The views, lines 163 to 216.\<close>

definition showPredictionView :: "app_state \<Rightarrow> element" where
  "showPredictionView st =
     View ''translationView''
       [if predictionFound st
        then View []
               [ScrollView [Text ''wordTextField'' (prediction st)],
                Button ''Check new prediction'' OnPress_loadNewPrediction]
        else ActivityIndicator]"

definition renderCameraView :: "closure \<Rightarrow> element" where
  "renderCameraView c = View ''cameraView'' [TensorCamera (OnReady_handleCameraStream c)]"

definition App :: "app_state \<Rightarrow> nat \<Rightarrow> element" where
  "App st v =
     (let c = \<lparr>c_predictionFound = predictionFound st,
               c_mobilenetModel = mobilenetModel st, c_var = v\<rparr>
      in View ''container''
           [View ''header'' [Text ''title'' ''My Pictionary''],
            View ''body''
              [if predictionFound st then showPredictionView st else renderCameraView c]])"

section \<open>React and the animation clock\<close>

text \<open>
  A render allocates that render's \<^verbatim>\<open>requestAnimationFrameId\<close> (initialised to 0),
  builds the element tree from the current state, and handles the second effect,
  lines 77 to 81: its dependency array is the value the variable has during the render.
  On the first render the effect runs and registers its cleanup; on a later render it
  runs again only if the dependency value differs from the registered one, in which case
  the old cleanup is run first.
\<close>

definition unmountCleanup :: "nat \<Rightarrow> world \<Rightarrow> world" where
  "unmountCleanup v w = cancelAnimationFrame (vars w v) w"

definition render :: "world \<Rightarrow> element \<times> world" where
  "render w =
     (let v = renders w;
          w1 = w\<lparr>renders := v + 1, vars := (vars w)(v := 0)\<rparr>;
          deps = vars w1 v;
          w2 = (case cleanupEffect w1 of
                  None \<Rightarrow> w1\<lparr>cleanupEffect := Some (deps, v)\<rparr>
                | Some (d, v') \<Rightarrow>
                    if d = deps then w1
                    else (unmountCleanup v' w1)\<lparr>cleanupEffect := Some (deps, v)\<rparr>)
      in (App (state w) v, w2))"

text \<open>Unmounting runs the registered cleanup.\<close>

definition unmount :: "world \<Rightarrow> world" where
  "unmount w =
     (case cleanupEffect w of
        None \<Rightarrow> w
      | Some (d, v) \<Rightarrow> (unmountCleanup v w)\<lparr>cleanupEffect := None\<rparr>)"

text \<open>An animation frame runs the oldest scheduled callback, which is then no longer scheduled.\<close>

definition animationFrame :: "world \<Rightarrow> error option \<times> world" where
  "animationFrame w =
     (case pending w of
        [] \<Rightarrow> (None, w)
      | (i, c) # rest \<Rightarrow> loop c (w\<lparr>pending := rest\<rparr>))"

text \<open>The handlers an element tree carries, and what invoking one does.\<close>

fun handlers :: "element \<Rightarrow> handler list" where
  "handlers (View s es) = concat (map handlers es)"
| "handlers (Text s t) = []"
| "handlers (ScrollView es) = concat (map handlers es)"
| "handlers (Button t h) = [h]"
| "handlers ActivityIndicator = []"
| "handlers (TensorCamera h) = [h]"

fun invoke :: "handler \<Rightarrow> world \<Rightarrow> error option \<times> world" where
  "invoke OnPress_loadNewPrediction w = (None, loadNewPrediction w)"
| "invoke (OnReady_handleCameraStream c) w = handleCameraStream c w"

text \<open>The body of the screen: what the element styled \<^verbatim>\<open>body\<close> contains.\<close>

fun body :: "element \<Rightarrow> element list" where
  "body (View s es) = (if s = ''body'' then es else concat (map body es))"
| "body e = []"

section \<open>Runs of the component\<close>

text \<open>
  What can happen to the mounted component: React renders it, the first effect runs
  with the answers of its three promises, a handler is invoked (the camera becomes
  ready, the reset button is pressed), an animation frame fires, the component is
  unmounted. A run applies such events in order; the invoked handler may carry any
  closure, so the runs cover every closure a render has produced.
\<close>

datatype event =
    Render
  | InitEffect "string awaited" "unit awaited" "model awaited"
  | Invoke handler
  | AnimationFrame
  | Unmount

fun step :: "event \<Rightarrow> world \<Rightarrow> world" where
  "step Render w = snd (render w)"
| "step (InitEffect permissions tfReady loaded) w =
     snd (initEffect permissions tfReady loaded w)"
| "step (Invoke h) w = snd (invoke h w)"
| "step AnimationFrame w = snd (animationFrame w)"
| "step Unmount w = unmount w"

definition run :: "event list \<Rightarrow> world \<Rightarrow> world" where
  "run es w = fold step es w"


section \<open>Sample inputs\<close>

text \<open>
  The classifier of the example in the source's comment, lines 109 to 113, answering
  every frame with the first \<open>topk\<close> entries of that ranking, and a classifier that is
  never confident.
\<close>

definition exampleModel :: model where
  "exampleModel t k =
     Some (take k
       [\<lparr>className = ''joystick'', probability = 0.8070220947265625\<rparr>,
        \<lparr>className = ''screen, CRT screen'', probability = 0.06108357384800911\<rparr>,
        \<lparr>className = ''monitor'', probability = 0.04016926884651184\<rparr>])"

definition unsureModel :: model where
  "unsureModel t k =
     Some (take k [\<lparr>className = ''monitor'', probability = 0.04016926884651184\<rparr>])"

text \<open>A confident classifier whose top class name is the empty string.\<close>

definition namelessModel :: model where
  "namelessModel t k = Some (take k [\<lparr>className = [], probability = 0.9\<rparr>])"

section \<open>Basic facts\<close>

lemmas setters = setPrediction_def setPredictionFound_def setHasPermission_def
  setMobilenetModel_def setFrameworkReady_def

lemmas run_defs = getPrediction_def loop_def handleCameraStream_def nextFrame_def
  requestAnimationFrame_def cancelAnimationFrame_def setters initialWorld_def
  initialState_def render_def unmount_def unmountCleanup_def animationFrame_def App_def
  showPredictionView_def renderCameraView_def loadNewPrediction_def initEffect_def Let_def

lemma exampleModel_top [simp]:
  "exampleModel t (Suc 0) =
     Some [\<lparr>className = ''joystick'', probability = 0.8070220947265625\<rparr>]"
  by (simp add: exampleModel_def)

lemma unsureModel_top [simp]:
  "unsureModel t (Suc 0) =
     Some [\<lparr>className = ''monitor'', probability = 0.04016926884651184\<rparr>]"
  by (simp add: unsureModel_def)

text \<open>
  The literal 0.3 of the source denotes the double \<open>5404319552844595 / 2 ^ 54\<close>, a little
  below three tenths. The doubles from a quarter up to a half are the multiples of
  \<open>1 / 2 ^ 54\<close>, and on those, being above that double and being above three tenths are
  the same; a smaller double is above neither and a larger one above both. So the
  comparison \<open>0.3 < probability p\<close> of the model decides as the source does at every
  double.
\<close>

lemma threshold_on_doubles:
  "((5404319552844595::real) / 2 ^ 54 < real_of_int k / 2 ^ 54)
     = (3 / 10 < real_of_int k / 2 ^ 54)"
proof -
  have grid: "((5404319552844595::real) / 2 ^ 54 < real_of_int k / 2 ^ 54)
      = (5404319552844595 < k)"
    by (simp add: divide_less_cancel)
  have "(3 / 10 < real_of_int k / 2 ^ 54) = ((3::real) * 2 ^ 54 < 10 * real_of_int k)"
    by (simp add: field_simps)
  also have "\<dots> = (real_of_int (3 * 2 ^ 54) < real_of_int (10 * k))"
    by simp
  also have "\<dots> = ((3::int) * 2 ^ 54 < 10 * k)"
    by (simp only: of_int_less_iff)
  also have "\<dots> = (5404319552844595 < k)"
    by simp presburger
  finally show ?thesis
    using grid by simp
qed

text \<open>Nothing in \<^verbatim>\<open>getPrediction\<close> looks at the model before calling its method.\<close>

lemma getPrediction_null_model:
  "c_mobilenetModel c = None \<Longrightarrow> getPrediction c (Some t) w = (Some TypeError, w)"
  by (simp add: getPrediction_def)

lemma getPrediction_loaded_model:
  "c_mobilenetModel c = Some m \<Longrightarrow> fst (getPrediction c tensor w) = None"
  by (simp add: getPrediction_def Let_def split: option.splits list.splits)

lemma getPrediction_nextId: "nextId (snd (getPrediction c tensor w)) = nextId w"
  by (simp add: getPrediction_def Let_def setters cancelAnimationFrame_def
      split: option.splits list.splits)

lemma nextFrame_nextId: "nextId (snd (nextFrame w)) = nextId w"
  by (simp add: nextFrame_def split: list.splits)

text \<open>
  An iteration of \<^verbatim>\<open>loop\<close> that does not throw always leaves its own next run
  scheduled: the request comes after \<^verbatim>\<open>getPrediction\<close> has returned, whatever it did.
\<close>

lemma loop_always_reschedules:
  assumes "fst (loop c w) = None"
  shows "(nextId w, c) \<in> set (pending (snd (loop c w)))"
proof -
  obtain f w1 where nf: "nextFrame w = (f, w1)"
    by (cases "nextFrame w")
  obtain e w2 where gp: "getPrediction c f w1 = (e, w2)"
    by (cases "getPrediction c f w1")
  have id1: "nextId w1 = nextId w"
    using nextFrame_nextId [of w] nf by simp
  have id2: "nextId w2 = nextId w1"
    using getPrediction_nextId [of c f w1] gp by simp
  from assms nf gp have "e = None"
    by (cases e) (simp_all add: loop_def)
  with nf gp id1 id2 show ?thesis
    by (simp add: loop_def requestAnimationFrame_def)
qed

text \<open>
  The dependency value of the second effect is 0 in every render, so the cleanup that
  the first render registered stays registered, with the first render's variable.
\<close>

lemma render_registers_cleanup:
  "cleanupEffect w = None \<Longrightarrow> cleanupEffect (snd (render w)) = Some (0, renders w)"
  by (simp add: render_def Let_def)

lemma render_keeps_cleanup:
  "cleanupEffect w = Some (0, v) \<Longrightarrow> cleanupEffect (snd (render w)) = Some (0, v)"
  by (simp add: render_def Let_def)

text \<open>
  Which state variables the functions write: the prediction loop and the reset touch
  \<open>predictionFound\<close> and \<open>prediction\<close> only, rendering and unmounting touch none, and
  the first effect is the only writer of the other three.
\<close>

lemma namelessModel_top [simp]:
  "namelessModel t (Suc 0) = Some [\<lparr>className = [], probability = 0.9\<rparr>]"
  by (simp add: namelessModel_def)

lemma getPrediction_writes:
  "hasPermission (state (snd (getPrediction c tensor w))) = hasPermission (state w)
   \<and> mobilenetModel (state (snd (getPrediction c tensor w))) = mobilenetModel (state w)
   \<and> frameworkReady (state (snd (getPrediction c tensor w))) = frameworkReady (state w)"
  by (simp add: getPrediction_def Let_def setters cancelAnimationFrame_def
      split: option.splits list.splits)

lemma nextFrame_state: "state (snd (nextFrame w)) = state w"
  by (simp add: nextFrame_def split: list.splits)

lemma loop_writes:
  "hasPermission (state (snd (loop c w))) = hasPermission (state w)
   \<and> mobilenetModel (state (snd (loop c w))) = mobilenetModel (state w)
   \<and> frameworkReady (state (snd (loop c w))) = frameworkReady (state w)"
proof -
  obtain f w1 where nf: "nextFrame w = (f, w1)"
    by (cases "nextFrame w")
  obtain e w2 where gp: "getPrediction c f w1 = (e, w2)"
    by (cases "getPrediction c f w1")
  have s1: "state w1 = state w"
    using nextFrame_state [of w] nf by simp
  have s2: "hasPermission (state w2) = hasPermission (state w1)
      \<and> mobilenetModel (state w2) = mobilenetModel (state w1)
      \<and> frameworkReady (state w2) = frameworkReady (state w1)"
    using getPrediction_writes [of c f w1] gp by simp
  show ?thesis
    using nf gp s1 s2
    by (cases e) (simp_all add: loop_def requestAnimationFrame_def)
qed

lemma render_state: "state (snd (render w)) = state w"
  by (simp add: render_def Let_def unmountCleanup_def cancelAnimationFrame_def
      split: option.splits)

lemma unmount_state: "state (unmount w) = state w"
  by (simp add: unmount_def unmountCleanup_def cancelAnimationFrame_def
      split: option.splits)

lemma animationFrame_writes:
  "hasPermission (state (snd (animationFrame w))) = hasPermission (state w)
   \<and> mobilenetModel (state (snd (animationFrame w))) = mobilenetModel (state w)
   \<and> frameworkReady (state (snd (animationFrame w))) = frameworkReady (state w)"
proof (cases "pending w")
  case Nil
  then show ?thesis by (simp add: animationFrame_def)
next
  case (Cons a rest)
  obtain i c where a: "a = (i, c)" by (cases a)
  show ?thesis
    using Cons a loop_writes [of c "w\<lparr>pending := rest\<rparr>"]
    by (simp add: animationFrame_def)
qed

lemma invoke_writes:
  "hasPermission (state (snd (invoke h w))) = hasPermission (state w)
   \<and> mobilenetModel (state (snd (invoke h w))) = mobilenetModel (state w)
   \<and> frameworkReady (state (snd (invoke h w))) = frameworkReady (state w)"
proof (cases h)
  case OnPress_loadNewPrediction
  then show ?thesis by (simp add: loadNewPrediction_def setters)
next
  case (OnReady_handleCameraStream c)
  then show ?thesis
    using loop_writes [of c w] by (simp add: handleCameraStream_def)
qed

text \<open>Once \<open>frameworkReady\<close> is set the first effect does nothing more.\<close>

lemma initEffect_once:
  "frameworkReady (state w) \<Longrightarrow> initEffect permissions tfReady loaded w = (None, w)"
  by (simp add: initEffect_def)

text \<open>Only the first effect writes \<open>hasPermission\<close>.\<close>

lemma step_keeps_hasPermission:
  assumes "\<And>p r l. e \<noteq> InitEffect p r l"
  shows "hasPermission (state (step e w)) = hasPermission (state w)"
proof (cases e)
  case Render
  then show ?thesis by (simp add: render_state)
next
  case (InitEffect p r l)
  then show ?thesis using assms [of p r l] by blast
next
  case (Invoke h)
  then show ?thesis using invoke_writes [of h w] by simp
next
  case AnimationFrame
  then show ?thesis using animationFrame_writes [of w] by simp
next
  case Unmount
  then show ?thesis by (simp add: unmount_state)
qed

lemma run_keeps_hasPermission:
  assumes "\<And>e p r l. e \<in> set es \<Longrightarrow> e \<noteq> InitEffect p r l"
  shows "hasPermission (state (run es w)) = hasPermission (state w)"
  using assms unfolding run_def
proof (induction es arbitrary: w)
  case Nil
  then show ?case by simp
next
  case (Cons e es)
  have "hasPermission (state (step e w)) = hasPermission (state w)"
    using Cons.prems by (intro step_keeps_hasPermission) simp
  moreover have "hasPermission (state (fold step es (step e w)))
      = hasPermission (state (step e w))"
    using Cons.prems by (intro Cons.IH) simp
  ultimately show ?case by simp
qed






section \<open>The claims\<close>

text \<open>
  Claim C1. Every classification asks the classifier for the top prediction only
  (\<open>topk = 1\<close>, one call, recorded in \<open>calls\<close>) and inspects element 0 of the answer only
  (the rest \<open>ps\<close> of the array plays no part). The answer is accepted exactly when its
  probability is strictly above 0.3: then \<open>predictionFound\<close> is set to true and
  \<open>prediction\<close> to the class name of the top result, and otherwise the component state
  is left as it was.
\<close>

theorem getPrediction_top_threshold:
  assumes "c_mobilenetModel c = Some m" and "m t 1 = Some (p # ps)"
  shows "fst (getPrediction c (Some t) w) = None
       \<and> calls (snd (getPrediction c (Some t) w)) = calls w @ [(t, 1)]
       \<and> state (snd (getPrediction c (Some t) w)) =
           (if 0.3 < probability p
            then (state w)\<lparr>predictionFound := True, prediction := className p\<rparr>
            else state w)
       \<and> (\<not> predictionFound (state w) \<longrightarrow>
            predictionFound (state (snd (getPrediction c (Some t) w)))
              = (0.3 < probability p))"
  using assms
  by (simp add: getPrediction_def setters cancelAnimationFrame_def Let_def)

theorem getPrediction_top_threshold_witness:
  "state (snd (getPrediction
       \<lparr>c_predictionFound = False, c_mobilenetModel = Some exampleModel, c_var = 0\<rparr>
       (Some 5) (initialWorld []))) =
     initialState\<lparr>predictionFound := True, prediction := ''joystick''\<rparr>
   \<and> calls (snd (getPrediction
       \<lparr>c_predictionFound = False, c_mobilenetModel = Some exampleModel, c_var = 0\<rparr>
       (Some 5) (initialWorld []))) = [(5, 1)]"
  using getPrediction_top_threshold
    [of "\<lparr>c_predictionFound = False, c_mobilenetModel = Some exampleModel, c_var = 0\<rparr>"
        exampleModel 5 "\<lparr>className = ''joystick'', probability = 0.8070220947265625\<rparr>" "[]"
        "initialWorld []"]
  by (simp add: initialWorld_def)

text \<open>
  Claim C2 says that once a prediction has crossed the threshold, the repeating callback
  is cancelled and no later iteration pulls a frame or calls the classifier. The run
  below mounts the component, completes the first effect with the example classifier,
  renders, and lets the camera's \<^verbatim>\<open>onReady\<close> of that render start the loop on the frames
  1 and 2. The first iteration accepts ``joystick''; its \<^verbatim>\<open>cancelAnimationFrame\<close> is
  given the value 0 of the variable, which is no scheduled callback, and the iteration
  then schedules callback 1. After the render that shows the prediction, the next
  animation frame runs the loop again: frame 2 is pulled and classified.
\<close>

theorem loop_runs_on_after_prediction_found:
  "let c = \<lparr>c_predictionFound = False, c_mobilenetModel = Some exampleModel, c_var = 1\<rparr>;
       w1 = snd (render (initialWorld [Some 1, Some 2]));
       w2 = snd (initEffect (Resolved ''granted'') (Resolved ()) (Resolved exampleModel) w1);
       w3 = snd (render w2);
       w4 = snd (invoke (OnReady_handleCameraStream c) w3);
       w5 = snd (render w4);
       w6 = snd (animationFrame w5)
   in handlers (fst (render w2)) = [OnReady_handleCameraStream c]
    \<and> predictionFound (state w4) \<and> prediction (state w4) = ''joystick''
    \<and> frames w4 = [Some 2] \<and> calls w4 = [(1, 1)] \<and> pending w4 = [(1, c)]
    \<and> pending w5 = [(1, c)]
    \<and> frames w6 = [] \<and> calls w6 = [(1, 1), (2, 1)] \<and> pending w6 = [(2, c)]"
  by (simp add: run_defs)

text \<open>
  Claim C3. \<^verbatim>\<open>loadNewPrediction\<close> puts \<open>prediction\<close> back to the empty string and
  \<open>predictionFound\<close> back to false in every state and changes nothing else, so the body
  of the screen is the camera view again; in the initial state it changes nothing, and
  applying it twice is applying it once.
\<close>

theorem loadNewPrediction_resets:
  "prediction (state (loadNewPrediction w)) = []
   \<and> \<not> predictionFound (state (loadNewPrediction w))
   \<and> loadNewPrediction w =
       w\<lparr>state := (state w)\<lparr>prediction := [], predictionFound := False\<rparr>\<rparr>
   \<and> body (App (state (loadNewPrediction w)) v) =
       [renderCameraView \<lparr>c_predictionFound = False,
          c_mobilenetModel = mobilenetModel (state w), c_var = v\<rparr>]
   \<and> loadNewPrediction (initialWorld fs) = initialWorld fs
   \<and> loadNewPrediction (loadNewPrediction w) = loadNewPrediction w"
  by (simp add: loadNewPrediction_def setters App_def initialWorld_def initialState_def)



text \<open>
  Claim C5 says that the cleanup run at unmount cancels the scheduled callback of the
  loop, so that no iteration runs after unmount. In the run below the loop is started
  by the render that follows the first effect (the first render's closure has no
  classifier), so its identifiers go to that render's variable, number 1. The cleanup
  was registered by the first render and reads variable 0, which still holds 0: at
  unmount it cancels nothing, callback 1 stays scheduled, and the next animation frame
  pulls frame 2 and classifies it.
\<close>

theorem unmount_leaves_loop_scheduled:
  "let c = \<lparr>c_predictionFound = False, c_mobilenetModel = Some unsureModel, c_var = 1\<rparr>;
       w1 = snd (render (initialWorld [Some 1, Some 2]));
       w2 = snd (initEffect (Resolved ''granted'') (Resolved ()) (Resolved unsureModel) w1);
       w3 = snd (render w2);
       w4 = snd (invoke (OnReady_handleCameraStream c) w3);
       w5 = unmount w4;
       w6 = snd (animationFrame w5)
   in handlers (fst (render w2)) = [OnReady_handleCameraStream c]
    \<and> cleanupEffect w4 = Some (0, 0) \<and> vars w4 0 = 0 \<and> vars w4 1 = 1
    \<and> pending w4 = [(1, c)] \<and> frames w4 = [Some 2] \<and> calls w4 = [(1, 1)]
    \<and> pending w5 = [(1, c)]
    \<and> frames w6 = [] \<and> calls w6 = [(1, 1), (2, 1)] \<and> pending w6 = [(2, c)]"
  by (simp add: run_defs)

text \<open>
  Claim C6. Run where \<open>frameworkReady\<close> is false, as at mount, the first effect sets
  \<open>hasPermission\<close> as soon as the permission request has answered: to true if the
  status is the string \<^verbatim>\<open>granted\<close> and to false for every other status, whatever
  becomes of the two later promises. When all three promises resolve the effect runs
  to its end, having stored the flag, the handle and \<open>frameworkReady\<close>.
\<close>

theorem initEffect_hasPermission:
  assumes "\<not> frameworkReady (state w)"
  shows "hasPermission (state (snd (initEffect (Resolved status) tfReady loaded w)))
       = Some (status = ''granted'')
     \<and> initEffect (Resolved status) (Resolved u) (Resolved m) w =
         (None, setFrameworkReady True
                  (setMobilenetModel m (setHasPermission (status = ''granted'') w)))"
  using assms
  by (simp add: initEffect_def setters Let_def split: awaited.splits)

theorem initEffect_hasPermission_witness:
  "hasPermission (state (run
       [Render, InitEffect (Resolved ''granted'') (Resolved ()) (Resolved exampleModel)]
       (initialWorld [Some 1]))) = Some True
   \<and> hasPermission (state (run
       [Render, InitEffect (Resolved ''denied'') (Resolved ()) (Resolved exampleModel)]
       (initialWorld [Some 1]))) = Some False
   \<and> hasPermission (state (run
       [Render, InitEffect (Resolved ''undetermined'') (Resolved ()) Rejected]
       (initialWorld [Some 1]))) = Some False
   \<and> fst (initEffect (Resolved ''undetermined'') (Resolved ()) (Resolved exampleModel)
       (snd (render (initialWorld [Some 1])))) = None
   \<and> frameworkReady (state (run
       [Render, InitEffect (Resolved ''undetermined'') (Resolved ()) (Resolved exampleModel)]
       (initialWorld [Some 1])))"
proof -
  have fresh: "\<not> frameworkReady (state (snd (render (initialWorld [Some 1]))))"
    by (simp add: render_state initialWorld_def initialState_def)
  show ?thesis
    using initEffect_hasPermission [OF fresh, of "''granted''" "Resolved ()"
        "Resolved exampleModel" "()" exampleModel]
      initEffect_hasPermission [OF fresh, of "''denied''" "Resolved ()"
        "Resolved exampleModel" "()" exampleModel]
      initEffect_hasPermission [OF fresh, of "''undetermined''" "Resolved ()"
        Rejected "()" exampleModel]
    by (simp add: run_def setters)
qed

text \<open>
  Claim C7. In every state the body of the screen is the prediction view, the current
  label with the reset button, exactly when \<open>predictionFound\<close> is true, and the camera
  view exactly when it is false.
\<close>

theorem body_flips_on_predictionFound:
  "(body (App st v) =
      [View ''translationView''
         [View [] [ScrollView [Text ''wordTextField'' (prediction st)],
                   Button ''Check new prediction'' OnPress_loadNewPrediction]]])
     = predictionFound st
   \<and> (body (App st v) =
      [View ''cameraView''
         [TensorCamera (OnReady_handleCameraStream
            \<lparr>c_predictionFound = predictionFound st,
             c_mobilenetModel = mobilenetModel st, c_var = v\<rparr>)]])
     = (\<not> predictionFound st)"
  by (simp add: App_def showPredictionView_def renderCameraView_def)

text \<open>
  Claim C8. When the tensor is null, or the classifier answers null or an empty array,
  or the top probability is not above 0.3, \<^verbatim>\<open>getPrediction\<close> returns normally and has
  changed neither the component state nor the animation-frame variables nor the
  scheduled callbacks: apart from the record of the classifier call, the world is as
  before.
\<close>

theorem getPrediction_failure_unchanged:
  assumes "tensor = None
     \<or> (\<exists>t m. tensor = Some t \<and> c_mobilenetModel c = Some m
          \<and> (m t 1 = None \<or> m t 1 = Some []
             \<or> (\<exists>p ps. m t 1 = Some (p # ps) \<and> \<not> 0.3 < probability p)))"
  shows "fst (getPrediction c tensor w) = None
     \<and> state (snd (getPrediction c tensor w)) = state w
     \<and> vars (snd (getPrediction c tensor w)) = vars w
     \<and> pending (snd (getPrediction c tensor w)) = pending w
     \<and> snd (getPrediction c tensor w)\<lparr>calls := calls w\<rparr> = w"
  using assms
  by (auto simp: getPrediction_def Let_def)

theorem getPrediction_failure_unchanged_witness:
  "state (snd (getPrediction
       \<lparr>c_predictionFound = False, c_mobilenetModel = Some unsureModel, c_var = 0\<rparr>
       (Some 5) (initialWorld []))) = initialState
   \<and> state (snd (getPrediction
       \<lparr>c_predictionFound = False, c_mobilenetModel = Some unsureModel, c_var = 0\<rparr>
       None (initialWorld []))) = initialState"
  using getPrediction_failure_unchanged
    [of "Some 5" "\<lparr>c_predictionFound = False, c_mobilenetModel = Some unsureModel, c_var = 0\<rparr>"
        "initialWorld []"]
   getPrediction_failure_unchanged
    [of None "\<lparr>c_predictionFound = False, c_mobilenetModel = Some unsureModel, c_var = 0\<rparr>"
        "initialWorld []"]
  by (simp add: initialWorld_def)

text \<open>
  Claim C9 says that whenever \<^verbatim>\<open>getPrediction\<close> passes its tensor guard the classifier
  handle is not null. The first render, in the initial state, already shows the camera
  view, and the \<^verbatim>\<open>onReady\<close> handler it carries has closed over the null handle: with a
  first frame that is a tensor, the guard passes, \<^verbatim>\<open>mobilenetModel.classify\<close> is
  evaluated on null and throws, and the loop ends without scheduling anything.
\<close>

theorem classify_on_null_model:
  "let c = \<lparr>c_predictionFound = False, c_mobilenetModel = None, c_var = 0\<rparr>;
       w1 = snd (render (initialWorld [Some 1]))
   in handlers (fst (render (initialWorld [Some 1]))) = [OnReady_handleCameraStream c]
    \<and> mobilenetModel (state w1) = None
    \<and> getPrediction c (Some 1) w1 = (Some TypeError, w1)
    \<and> fst (invoke (OnReady_handleCameraStream c) w1) = Some TypeError
    \<and> pending (snd (invoke (OnReady_handleCameraStream c) w1)) = []"
  by (simp add: run_defs)

text \<open>
  Claim C10. The element tree that \<^verbatim>\<open>App\<close> returns does not depend on \<open>hasPermission\<close>:
  two states that agree on the other four state variables render the same tree, the
  camera view and the closures of its handlers included.
\<close>

theorem render_ignores_hasPermission:
  assumes "predictionFound s = predictionFound t" and "prediction s = prediction t"
    and "mobilenetModel s = mobilenetModel t" and "frameworkReady s = frameworkReady t"
  shows "App s v = App t v"
  using assms by (simp add: App_def showPredictionView_def)

theorem render_ignores_hasPermission_witness:
  "hasPermission (initialState\<lparr>hasPermission := Some True\<rparr>)
     \<noteq> hasPermission (initialState\<lparr>hasPermission := Some False\<rparr>)
   \<and> App (initialState\<lparr>hasPermission := Some True\<rparr>) 0
     = App (initialState\<lparr>hasPermission := Some False\<rparr>) 0"
  using render_ignores_hasPermission
    [of "initialState\<lparr>hasPermission := Some True\<rparr>"
        "initialState\<lparr>hasPermission := Some False\<rparr>" 0]
  by simp

end
